theory Spec2Isabelle
  imports Complex_Main "HOL-Library.Sublist"
begin

section \<open>The address book of \<^verbatim>\<open>main.py\<close>\<close>

text \<open>
  \<^verbatim>\<open>main.py\<close> is a FastAPI service over one SQLite table, \<^verbatim>\<open>addresses\<close>, with four
  endpoints: create, update, delete and the proximity query. Each endpoint is modelled
  as a function that takes the table and returns either the exception it raises or its
  return value, and (where it writes) the table it leaves behind.

  Python floats are modelled as \<^typ>\<open>real\<close>: every float of the model is finite, and
  rounding, infinities and NaN are outside the model. Python integers are \<^typ>\<open>int\<close>,
  unbounded; an SQLite integer is a signed 64-bit number, and the two places where
  that matters (binding \<^verbatim>\<open>address_id\<close>, and the key of a new row) are modelled. Parsing
  a request and serialising the returned object (the \<^verbatim>\<open>response_model\<close>) belong to the
  framework and are not modelled.
\<close>

subsection \<open>Values, payloads and rows\<close>

text \<open>The values that \<^verbatim>\<open>model_dump()\<close> puts into its dictionary, and \<^verbatim>\<open>None\<close>.\<close>

datatype py_value = PyNone | PyStr string | PyFloat real

text \<open>
  \<^verbatim>\<open>class AddressCreate(BaseModel)\<close> and \<^verbatim>\<open>class AddressUpdate(BaseModel)\<close>: the fields
  \<^verbatim>\<open>name: str\<close>, \<^verbatim>\<open>latitude: float\<close>, \<^verbatim>\<open>longitude: float\<close>, all required, in this order.
\<close>

datatype address_create = AddressCreate string real real

datatype address_update = AddressUpdate string real real

text \<open>\<^verbatim>\<open>model_dump()\<close>: the dictionary of the fields, in declaration order.\<close>

fun create_model_dump :: "address_create \<Rightarrow> (string \<times> py_value) list" where
  "create_model_dump (AddressCreate n la lo) =
     [(''name'', PyStr n), (''latitude'', PyFloat la), (''longitude'', PyFloat lo)]"

fun update_model_dump :: "address_update \<Rightarrow> (string \<times> py_value) list" where
  "update_model_dump (AddressUpdate n la lo) =
     [(''name'', PyStr n), (''latitude'', PyFloat la), (''longitude'', PyFloat lo)]"

text \<open>
  \<^verbatim>\<open>class Address(Base)\<close>: a row of the table. \<^verbatim>\<open>id\<close> is the integer primary key
  (named \<open>ident\<close> here, \<open>id\<close> being the identity function of HOL); the other three
  columns are declared without \<^verbatim>\<open>nullable=False\<close>, so each may hold NULL.
\<close>

record address =
  ident :: int
  name :: "string option"
  latitude :: "real option"
  longitude :: "real option"

text \<open>
  The table: its rows in the order in which \<^verbatim>\<open>db.query(Address).all()\<close> returns them,
  which is the order of their keys (a \<^verbatim>\<open>SELECT\<close> with no \<^verbatim>\<open>ORDER BY\<close> walks the table by
  rowid).
\<close>

type_synonym db = "address list"

text \<open>
  The exceptions: \<^verbatim>\<open>HTTPException(status_code=404)\<close> raised by \<^verbatim>\<open>main.py\<close> itself;
  \<^verbatim>\<open>ValueError\<close> raised by the distance library; \<^verbatim>\<open>OverflowError\<close> raised by the
  \<^verbatim>\<open>sqlite3\<close> driver when it is handed an integer outside the signed 64-bit range;
  \<^verbatim>\<open>OperationalError\<close> raised by an INSERT for which SQLite finds no key
  (\<^verbatim>\<open>SQLITE_FULL\<close>); and the \<^verbatim>\<open>InvalidRequestError\<close> of \<^verbatim>\<open>db.refresh\<close> on an object whose
  row is gone.
\<close>

datatype error = NotFound | ValueError | OverflowError | OperationalError | InvalidRequestError

subsection \<open>Attribute assignment\<close>

text \<open>What a column holds after a Python value is assigned to it.\<close>

fun str_column :: "py_value \<Rightarrow> string option" where
  "str_column (PyStr s) = Some s"
| "str_column _ = None"

fun float_column :: "py_value \<Rightarrow> real option" where
  "float_column (PyFloat x) = Some x"
| "float_column _ = None"

text \<open>
  \<^verbatim>\<open>setattr(db_address, field, value)\<close>. Assigning \<^verbatim>\<open>None\<close> sets the column to NULL. An
  attribute that is no column does not reach the table.
\<close>

definition setattr :: "address \<Rightarrow> string \<Rightarrow> py_value \<Rightarrow> address" where
  "setattr a field v =
     (if field = ''name'' then a\<lparr>name := str_column v\<rparr>
      else if field = ''latitude'' then a\<lparr>latitude := float_column v\<rparr>
      else if field = ''longitude'' then a\<lparr>longitude := float_column v\<rparr>
      else a)"

text \<open>
  \<^verbatim>\<open>Address(**kwargs)\<close>: every keyword is assigned to a new object. Its \<^verbatim>\<open>id\<close> is unset
  until the INSERT (the \<open>0\<close> here is overwritten there).
\<close>

definition address_init :: "(string \<times> py_value) list \<Rightarrow> address" where
  "address_init kwargs =
     fold (\<lambda>(field, v) a. setattr a field v) kwargs
       \<lparr>ident = 0, name = None, latitude = None, longitude = None\<rparr>"

subsection \<open>The session\<close>

text \<open>The integers SQLite can hold, and the largest key of a row.\<close>

definition int64 :: "int \<Rightarrow> bool" where
  "int64 i \<longleftrightarrow> - (2 ^ 63) \<le> i \<and> i < 2 ^ 63"

definition MAX_ROWID :: int where
  "MAX_ROWID = 2 ^ 63 - 1"

text \<open>\<^verbatim>\<open>SELECT ... FROM addresses WHERE id = pk\<close>, first row.\<close>

definition lookup :: "db \<Rightarrow> int \<Rightarrow> address option" where
  "lookup rows pk = find (\<lambda>a. ident a = pk) rows"

text \<open>
  \<^verbatim>\<open>db.query(Address).filter(Address.id == address_id).first()\<close>. The path parameter
  \<^verbatim>\<open>address_id: int\<close> is any integer; the driver binds it to the statement and raises
  \<^verbatim>\<open>OverflowError\<close> when it does not fit into 64 bits.
\<close>

definition query_first :: "db \<Rightarrow> int \<Rightarrow> error + address option" where
  "query_first rows address_id =
     (if int64 address_id then Inr (lookup rows address_id) else Inl OverflowError)"

text \<open>
  The key of an inserted row. \<^verbatim>\<open>Column(Integer, primary_key=True)\<close> on SQLite is
  \<^verbatim>\<open>INTEGER PRIMARY KEY\<close> without \<^verbatim>\<open>AUTOINCREMENT\<close> (no \<^verbatim>\<open>sqlite_autoincrement\<close> is
  set), an alias of the rowid. A new row gets 1 in an empty table and otherwise one more
  than the largest key \<open>v\<close> of the table. When \<open>v\<close> is the largest possible key, SQLite
  draws candidate keys at random and takes the first one that is not in use; when all
  its draws are in use the INSERT fails. The draws are the parameter \<open>candidates\<close>.
\<close>

definition new_rowid :: "int list \<Rightarrow> db \<Rightarrow> error + int" where
  "new_rowid candidates rows =
     (if rows = [] then Inr 1
      else let v = Max (set (map ident rows))
           in if v \<ge> MAX_ROWID
              then (case find (\<lambda>c. c \<notin> set (map ident rows)) candidates of
                      None \<Rightarrow> Inl OperationalError
                    | Some c \<Rightarrow> Inr c)
              else Inr (v + 1))"

text \<open>
  \<^verbatim>\<open>db.add(a); db.commit()\<close>: the INSERT of the object under the key \<open>pk\<close>; the row takes
  its place in the order of the keys.
\<close>

definition insert_row :: "db \<Rightarrow> address \<Rightarrow> int \<Rightarrow> db" where
  "insert_row rows a pk = insort_key ident (a\<lparr>ident := pk\<rparr>) rows"

text \<open>\<^verbatim>\<open>db.commit()\<close> after assignments to a loaded object: UPDATE ... WHERE id = its key.\<close>

definition update_row :: "db \<Rightarrow> address \<Rightarrow> db" where
  "update_row rows a' = map (\<lambda>a. if ident a = ident a' then a' else a) rows"

text \<open>\<^verbatim>\<open>db.delete(a); db.commit()\<close>: DELETE ... WHERE id = its key.\<close>

definition delete_row :: "db \<Rightarrow> address \<Rightarrow> db" where
  "delete_row rows a' = filter (\<lambda>a. ident a \<noteq> ident a') rows"

text \<open>
  \<^verbatim>\<open>db.refresh(a)\<close>: the object is loaded again by its key (a key of the table, so it
  binds); it raises when no row is found.
\<close>

definition refresh :: "db \<Rightarrow> int \<Rightarrow> error + address" where
  "refresh rows pk = (case lookup rows pk of None \<Rightarrow> Inl InvalidRequestError | Some a \<Rightarrow> Inr a)"

subsection \<open>The endpoints\<close>

text \<open>
  \<^verbatim>\<open>
  db_address = Address(**address.model_dump())
  db.add(db_address)
  db.commit()
  db.refresh(db_address)
  return db_address
  \<close>
  The second argument is the draws of SQLite, see \<open>new_rowid\<close>. A commit that raises
  leaves the table as it was.
\<close>

definition create_address ::
  "address_create \<Rightarrow> int list \<Rightarrow> db \<Rightarrow> (error + address) \<times> db" where
  "create_address address candidates rows =
     (let db_address = address_init (create_model_dump address)
      in case new_rowid candidates rows of
           Inl e \<Rightarrow> (Inl e, rows)
         | Inr pk \<Rightarrow>
             (let rows' = insert_row rows db_address pk
              in (refresh rows' pk, rows')))"

text \<open>
  \<^verbatim>\<open>
  for field, value in address_update.model_dump().items():
      if value is not None:
          setattr(db_address, field, value)
  \<close>
\<close>

definition assign_fields :: "(string \<times> py_value) list \<Rightarrow> address \<Rightarrow> address" where
  "assign_fields items db_address =
     fold (\<lambda>(field, v) a. if v \<noteq> PyNone then setattr a field v else a) items db_address"

text \<open>
  \<^verbatim>\<open>
  db_address = db.query(Address).filter(Address.id == address_id).first()
  if db_address is None:
      raise HTTPException(status_code=404, detail="Address not found")
  for ...
  db.commit()
  db.refresh(db_address)
  return db_address
  \<close>
\<close>

definition update_address :: "int \<Rightarrow> address_update \<Rightarrow> db \<Rightarrow> (error + address) \<times> db" where
  "update_address address_id address_update rows =
     (case query_first rows address_id of
        Inl e \<Rightarrow> (Inl e, rows)
      | Inr None \<Rightarrow> (Inl NotFound, rows)
      | Inr (Some db_address) \<Rightarrow>
          (let db_address' = assign_fields (update_model_dump address_update) db_address;
               rows' = update_row rows db_address'
           in (refresh rows' (ident db_address'), rows')))"

text \<open>
  \<^verbatim>\<open>
  db_address = db.query(Address).filter(Address.id == address_id).first()
  if db_address is None:
      raise HTTPException(status_code=404, detail="Address not found")
  db.delete(db_address)
  db.commit()
  return db_address
  \<close>
\<close>

definition delete_address :: "int \<Rightarrow> db \<Rightarrow> (error + address) \<times> db" where
  "delete_address address_id rows =
     (case query_first rows address_id of
        Inl e \<Rightarrow> (Inl e, rows)
      | Inr None \<Rightarrow> (Inl NotFound, rows)
      | Inr (Some db_address) \<Rightarrow> (Inr db_address, delete_row rows db_address))"

text \<open>
  The proximity query. \<^verbatim>\<open>geodesic\<close> comes from the geopy library, so it is a parameter
  here: a function from the two coordinate pairs to the distance in kilometers, which
  may raise. The query parameters \<^verbatim>\<open>latitude\<close> and \<^verbatim>\<open>longitude\<close> are \<open>lat\<close> and \<open>lon\<close>
  (the longer names are the columns of a row).
  \<^verbatim>\<open>
  addresses = db.query(Address).all()
  within_distance = []
  location = (latitude, longitude)
  for address in addresses:
      address_location = (address.latitude, address.longitude)
      if geodesic(location, address_location).kilometers <= distance:
          within_distance.append(address)
  return within_distance
  \<close>
\<close>

type_synonym geodesic = "real \<times> real \<Rightarrow> real option \<times> real option \<Rightarrow> error + real"

fun within_loop ::
  "geodesic \<Rightarrow> real \<times> real \<Rightarrow> real \<Rightarrow> address list \<Rightarrow> address list \<Rightarrow> error + address list" where
  "within_loop geodesic location distance [] within_distance = Inr within_distance"
| "within_loop geodesic location distance (address # addresses) within_distance =
     (let address_location = (latitude address, longitude address)
      in case geodesic location address_location of
           Inl e \<Rightarrow> Inl e
         | Inr kilometers \<Rightarrow>
             within_loop geodesic location distance addresses
               (if kilometers \<le> distance then within_distance @ [address] else within_distance))"

definition get_addresses_within_distance ::
  "geodesic \<Rightarrow> real \<Rightarrow> real \<Rightarrow> real \<Rightarrow> db \<Rightarrow> error + address list" where
  "get_addresses_within_distance geodesic lat lon distance rows =
     within_loop geodesic (lat, lon) distance rows []"

subsection \<open>Sequences of requests\<close>





subsection \<open>The update with no guard\<close>

text \<open>
  The update as the specification words it: the record is looked up by its id (the
  same lookup as in the code), the request fails with \<open>NotFound\<close> if it is absent, and
  otherwise every field of the payload is assigned, whatever its value.
\<close>

definition assign_fields_unconditional :: "(string \<times> py_value) list \<Rightarrow> address \<Rightarrow> address" where
  "assign_fields_unconditional items db_address =
     fold (\<lambda>(field, v) a. setattr a field v) items db_address"

definition update_address_unconditional ::
  "int \<Rightarrow> address_update \<Rightarrow> db \<Rightarrow> (error + address) \<times> db" where
  "update_address_unconditional address_id address_update rows =
     (case query_first rows address_id of
        Inl e \<Rightarrow> (Inl e, rows)
      | Inr None \<Rightarrow> (Inl NotFound, rows)
      | Inr (Some db_address) \<Rightarrow>
          (let db_address' =
                 assign_fields_unconditional (update_model_dump address_update) db_address;
               rows' = update_row rows db_address'
           in (refresh rows' (ident db_address'), rows')))"

subsection \<open>The distance function of geopy\<close>

text \<open>
  \<^verbatim>\<open>geodesic(a, b)\<close> of geopy 2 turns both arguments into a \<^verbatim>\<open>Point\<close> and hands their
  coordinates to the inverse geodesic computation on the WGS-84 ellipsoid. The
  computation itself stays a parameter (\<open>geod_inverse\<close>); what is modelled is the \<^verbatim>\<open>Point\<close>
  constructor, which decides whether a distance is computed at all and from which
  coordinates:
  \<^verbatim>\<open>
  # Point.__new__(cls, latitude=None, longitude=None, altitude=None), from a pair
  single_arg = latitude is not None and longitude is None and altitude is None
  if single_arg:
      raise ValueError("A single number has been passed to the Point constructor...")
  # _normalize_coordinates
  latitude = float(latitude or 0.0)
  longitude = float(longitude or 0.0)
  if not all(isfinite(x) for x in (latitude, longitude, altitude)):
      raise ValueError("Point coordinates must be finite...")
  if abs(latitude) > 90:
      raise ValueError("Latitude must be in the [-90; 90] range.")
  if abs(longitude) > 180:
      longitude = ((longitude + 180) % 360) - 180
  \<close>
\<close>

text \<open>
  Every float of the model is finite, so the check \<^verbatim>\<open>isfinite\<close> never raises here: what
  is said below of "every" latitude or longitude is said of the finite ones.
\<close>

text \<open>Python's \<^verbatim>\<open>x % m\<close> on floats, for a positive \<^verbatim>\<open>m\<close>.\<close>

definition py_mod :: "real \<Rightarrow> real \<Rightarrow> real" where
  "py_mod x m = x - m * of_int \<lfloor>x / m\<rfloor>"

definition normalize_coordinates :: "real option \<Rightarrow> real option \<Rightarrow> error + (real \<times> real)" where
  "normalize_coordinates lat lon =
     (let la = (case lat of None \<Rightarrow> 0 | Some x \<Rightarrow> x);
          lo = (case lon of None \<Rightarrow> 0 | Some x \<Rightarrow> x)
      in if \<bar>la\<bar> > 90 then Inl ValueError
         else Inr (la, if \<bar>lo\<bar> > 180 then py_mod (lo + 180) 360 - 180 else lo))"

definition point :: "real option \<times> real option \<Rightarrow> error + (real \<times> real)" where
  "point arg =
     (let single_arg = (fst arg \<noteq> None \<and> snd arg = None)
      in if single_arg then Inl ValueError
         else normalize_coordinates (fst arg) (snd arg))"

definition geopy_geodesic :: "(real \<times> real \<Rightarrow> real \<times> real \<Rightarrow> real) \<Rightarrow> geodesic" where
  "geopy_geodesic geod_inverse location address_location =
     (case point (Some (fst location), Some (snd location)) of
        Inl e \<Rightarrow> Inl e
      | Inr a \<Rightarrow>
          (case point address_location of
             Inl e \<Rightarrow> Inl e
           | Inr b \<Rightarrow> Inr (geod_inverse a b)))"

subsection \<open>Example data\<close>

text \<open>
  A stand-in for the distance function in the examples: the difference of the two
  latitudes. And three rows, at 1, 5 and 10 from the reference point \<open>(0, 0)\<close>.
\<close>

definition example_geodesic :: geodesic where
  "example_geodesic location address_location =
     Inr \<bar>(case fst address_location of None \<Rightarrow> 0 | Some x \<Rightarrow> x) - fst location\<bar>"

definition example_rows :: db where
  "example_rows =
     [\<lparr>ident = 1, name = Some ''one'', latitude = Some 1, longitude = Some 0\<rparr>,
      \<lparr>ident = 2, name = Some ''five'', latitude = Some 5, longitude = Some 0\<rparr>,
      \<lparr>ident = 3, name = Some ''ten'', latitude = Some 10, longitude = Some 0\<rparr>]"

text \<open>A stand-in for the inverse geodesic computation: the difference of the latitudes.\<close>

definition example_inverse :: "real \<times> real \<Rightarrow> real \<times> real \<Rightarrow> real" where
  "example_inverse a b = \<bar>fst a - fst b\<bar>"

section \<open>Properties\<close>

subsection \<open>The loop of the proximity query\<close>

text \<open>When the distance function returns for every row, the loop is a filter.\<close>

lemma within_loop_ok:
  "\<forall>a\<in>set rows. geodesic loc (latitude a, longitude a) = Inr (d a) \<Longrightarrow>
   within_loop geodesic loc distance rows acc = Inr (acc @ filter (\<lambda>a. d a \<le> distance) rows)"
  by (induction rows arbitrary: acc) auto

text \<open>
  Whenever the loop returns, the distance function has returned for every row, and the
  loop has appended the rows within the distance, in order.
\<close>

lemma within_loop_Inr:
  "within_loop geodesic loc distance rows acc = Inr res \<Longrightarrow>
   (\<forall>a\<in>set rows. \<exists>km. geodesic loc (latitude a, longitude a) = Inr km) \<and>
   res = acc @ filter (\<lambda>a. \<exists>km. geodesic loc (latitude a, longitude a) = Inr km \<and> km \<le> distance) rows"
proof (induction rows arbitrary: acc)
  case Nil
  then show ?case by simp
next
  case (Cons a rows)
  from Cons.prems obtain km where km: "geodesic loc (latitude a, longitude a) = Inr km"
    by (auto split: sum.splits)
  with Cons.prems have
    "within_loop geodesic loc distance rows (if km \<le> distance then acc @ [a] else acc) = Inr res"
    by simp
  from Cons.IH[OF this] km show ?case by simp
qed

lemma within_distance_subset:
  "get_addresses_within_distance geodesic lat lon distance rows = Inr res \<Longrightarrow> set res \<subseteq> set rows"
  using within_loop_Inr[of geodesic "(lat, lon)" distance rows "[]" res]
  by (auto simp: get_addresses_within_distance_def)

text \<open>The loop raises only what a call of the distance function raises, and raises then.\<close>

lemma within_loop_Inl_D:
  "within_loop geodesic loc distance rows acc = Inl e \<Longrightarrow>
   \<exists>a\<in>set rows. geodesic loc (latitude a, longitude a) = Inl e"
  by (induction rows arbitrary: acc) (auto split: sum.splits)

lemma within_loop_Inl_I:
  "\<exists>a\<in>set rows. \<exists>e. geodesic loc (latitude a, longitude a) = Inl e \<Longrightarrow>
   \<exists>e. within_loop geodesic loc distance rows acc = Inl e"
  by (induction rows arbitrary: acc) (auto split: sum.splits)

lemma query_returns_iff:
  "(\<exists>res. get_addresses_within_distance geodesic lat lon max_km rows = Inr res) \<longleftrightarrow>
   (\<forall>a\<in>set rows. \<exists>km. geodesic (lat, lon) (latitude a, longitude a) = Inr km)"
  (is "?L \<longleftrightarrow> ?R")
proof
  assume ?L
  then obtain res where "within_loop geodesic (lat, lon) max_km rows [] = Inr res"
    by (auto simp: get_addresses_within_distance_def)
  from within_loop_Inr[OF this] show ?R by blast
next
  assume r: ?R
  show ?L
  proof (cases "within_loop geodesic (lat, lon) max_km rows []")
    case (Inl e)
    from within_loop_Inl_D[OF this] r show ?thesis by fastforce
  next
    case (Inr res)
    then show ?thesis by (simp add: get_addresses_within_distance_def)
  qed
qed

subsection \<open>Lookups and keys\<close>

lemma lookup_None: "lookup rows i = None \<longleftrightarrow> i \<notin> ident ` set rows"
  by (auto simp: lookup_def find_None_iff)

lemma lookup_Some: "lookup rows i = Some a \<Longrightarrow> a \<in> set rows \<and> ident a = i"
  by (auto simp: lookup_def find_Some_iff)

lemma lookup_cases:
  obtains "i \<notin> ident ` set rows" "lookup rows i = None"
  | a where "i \<in> ident ` set rows" "lookup rows i = Some a" "a \<in> set rows" "ident a = i"
  using lookup_None[of rows i] lookup_Some[of rows i]
  by (cases "lookup rows i") auto

lemma query_first_int64: "int64 i \<Longrightarrow> query_first rows i = Inr (lookup rows i)"
  by (simp add: query_first_def)

lemma query_first_overflow: "\<not> int64 i \<Longrightarrow> query_first rows i = Inl OverflowError"
  by (simp add: query_first_def)

lemma int64_example: "int64 2" "int64 3" "int64 4" "\<not> int64 9223372036854775808"
  by (simp_all add: int64_def)

text \<open>A new key is not in use; the INSERT fails only at the largest key.\<close>

lemma new_rowid_fresh: "new_rowid candidates rows = Inr pk \<Longrightarrow> pk \<notin> ident ` set rows"
proof (cases "rows = []")
  case True
  then show ?thesis by simp
next
  case False
  assume pk: "new_rowid candidates rows = Inr pk"
  show ?thesis
  proof (cases "Max (set (map ident rows)) \<ge> MAX_ROWID")
    case True
    with pk False have "find (\<lambda>c. c \<notin> set (map ident rows)) candidates = Some pk"
      by (simp add: new_rowid_def Let_def split: option.splits)
    then show ?thesis by (auto simp: find_Some_iff)
  next
    case big: False
    with pk False have pk': "pk = Max (set (map ident rows)) + 1"
      by (simp add: new_rowid_def Let_def)
    show ?thesis
    proof
      assume "pk \<in> ident ` set rows"
      then have "pk \<in> set (map ident rows)" by simp
      then have "pk \<le> Max (set (map ident rows))" by (intro Max_ge) simp_all
      with pk' show False by simp
    qed
  qed
qed




text \<open>The table after an INSERT under a key that is not in use.\<close>

lemma lookup_insort_fresh:
  "i \<notin> ident ` set rows \<Longrightarrow> ident a = i \<Longrightarrow> lookup (insort_key ident a rows) i = Some a"
  by (induction rows) (auto simp: lookup_def)





lemma lookup_update_row:
  "lookup rows i = Some a \<Longrightarrow> ident a' = i \<Longrightarrow> lookup (update_row rows a') i = Some a'"
  by (induction rows) (auto simp: lookup_def update_row_def split: if_splits)

text \<open>No assignment touches the key.\<close>

lemma ident_setattr: "ident (setattr a field v) = ident a"
  by (simp add: setattr_def)

lemma ident_assign_fields: "ident (assign_fields items a) = ident a"
  unfolding assign_fields_def
  by (induction items arbitrary: a) (auto simp: ident_setattr)


subsection \<open>The endpoints, case by case\<close>

lemma create_address_Inr:
  "new_rowid candidates rows = Inr pk \<Longrightarrow>
   create_address (AddressCreate n la lo) candidates rows =
    (Inr \<lparr>ident = pk, name = Some n, latitude = Some la, longitude = Some lo\<rparr>,
     insort_key ident \<lparr>ident = pk, name = Some n, latitude = Some la, longitude = Some lo\<rparr> rows)"
  using new_rowid_fresh[of candidates rows pk]
  by (simp add: create_address_def Let_def address_init_def setattr_def insert_row_def
      refresh_def lookup_insort_fresh)





lemma update_address_overflow:
  "\<not> int64 i \<Longrightarrow> update_address i u rows = (Inl OverflowError, rows)"
  by (simp add: update_address_def query_first_overflow)

lemma update_address_NotFound:
  "int64 i \<Longrightarrow> lookup rows i = None \<Longrightarrow> update_address i u rows = (Inl NotFound, rows)"
  by (simp add: update_address_def query_first_int64)

lemma update_address_found:
  assumes "int64 i" "lookup rows i = Some a"
  shows "update_address i u rows =
     (Inr (assign_fields (update_model_dump u) a),
      update_row rows (assign_fields (update_model_dump u) a))"
  using assms lookup_Some[OF assms(2)]
  by (simp add: update_address_def query_first_int64 Let_def refresh_def lookup_update_row
      ident_assign_fields)


lemma delete_address_overflow:
  "\<not> int64 i \<Longrightarrow> delete_address i rows = (Inl OverflowError, rows)"
  by (simp add: delete_address_def query_first_overflow)

lemma delete_address_NotFound:
  "int64 i \<Longrightarrow> lookup rows i = None \<Longrightarrow> delete_address i rows = (Inl NotFound, rows)"
  by (simp add: delete_address_def query_first_int64)

lemma delete_address_found:
  "int64 i \<Longrightarrow> lookup rows i = Some a \<Longrightarrow>
   delete_address i rows = (Inr a, filter (\<lambda>b. ident b \<noteq> i) rows)"
  using lookup_Some[of rows i a]
  by (simp add: delete_address_def query_first_int64 delete_row_def)


text \<open>The rows with another key, and the keys of the table, across an UPDATE.\<close>

lemma others_update_row:
  "ident a' = i \<Longrightarrow> filter (\<lambda>b. ident b \<noteq> i) (update_row rows a') = filter (\<lambda>b. ident b \<noteq> i) rows"
  by (induction rows) (auto simp: update_row_def)

lemma map_ident_update_row:
  "map ident (update_row rows a') = map ident rows"
  by (induction rows) (auto simp: update_row_def)



subsection \<open>The guard of the update loop\<close>

text \<open>
  On a dictionary with a \<^verbatim>\<open>None\<close> the guarded loop and the loop with no guard differ:
  the first leaves the column, the second sets it to NULL.
\<close>

lemma guard_matters:
  "assign_fields [(''name'', PyNone)] \<lparr>ident = 1, name = Some ''a'', latitude = Some 0, longitude = Some 0\<rparr>
   \<noteq> assign_fields_unconditional [(''name'', PyNone)] \<lparr>ident = 1, name = Some ''a'', latitude = Some 0, longitude = Some 0\<rparr>"
  by (simp add: assign_fields_def assign_fields_unconditional_def setattr_def)

text \<open>On the dictionary of an \<^verbatim>\<open>AddressUpdate\<close> they agree.\<close>

lemma assign_fields_dump_eq:
  "assign_fields (update_model_dump u) a = assign_fields_unconditional (update_model_dump u) a"
  by (cases u) (simp add: assign_fields_def assign_fields_unconditional_def)

subsection \<open>Keys stay distinct\<close>






subsection \<open>The distance function of geopy\<close>



lemma point_Some:
  "point (Some la, Some lo) =
     (if 90 < \<bar>la\<bar> then Inl ValueError
      else Inr (la, if 180 < \<bar>lo\<bar> then py_mod (lo + 180) 360 - 180 else lo))"
  by (simp add: point_def normalize_coordinates_def)







text \<open>A longitude of 360 is the longitude 0 to \<^verbatim>\<open>Point\<close>.\<close>

lemma geo_360: "geopy_geodesic geod_inverse (0, 0) (Some 0, Some 360) = Inr (geod_inverse (0, 0) (0, 0))"
  by (simp add: geopy_geodesic_def point_Some py_mod_def)

lemma geo_0: "geopy_geodesic geod_inverse (0, 0) (Some 0, Some 0) = Inr (geod_inverse (0, 0) (0, 0))"
  by (simp add: geopy_geodesic_def point_Some)

lemma query_360:
  "get_addresses_within_distance (geopy_geodesic geod_inverse) 0 0 0
          [\<lparr>ident = 1, name = Some ''a'', latitude = Some 0, longitude = Some 0\<rparr>,
           \<lparr>ident = 2, name = Some ''b'', latitude = Some 0, longitude = Some 360\<rparr>] =
   Inr (if geod_inverse (0, 0) (0, 0) \<le> 0
        then [\<lparr>ident = 1, name = Some ''a'', latitude = Some 0, longitude = Some 0\<rparr>,
           \<lparr>ident = 2, name = Some ''b'', latitude = Some 0, longitude = Some 360\<rparr>] else [])"
  by (simp add: get_addresses_within_distance_def geo_360 geo_0)

subsection \<open>The example tables\<close>



lemma create_at_largest_key:
  "create_address (AddressCreate ''b'' 3 4) [9223372036854775807, 5]
     [\<lparr>ident = 9223372036854775807, name = Some ''max'', latitude = Some 0, longitude = Some 0\<rparr>] =
   (Inr \<lparr>ident = 5, name = Some ''b'', latitude = Some 3, longitude = Some 4\<rparr>,
    [\<lparr>ident = 5, name = Some ''b'', latitude = Some 3, longitude = Some 4\<rparr>,
     \<lparr>ident = 9223372036854775807, name = Some ''max'', latitude = Some 0, longitude = Some 0\<rparr>])"
proof -
  have "new_rowid [9223372036854775807, 5]
     [\<lparr>ident = 9223372036854775807, name = Some ''max'', latitude = Some 0,
       longitude = Some (0::real)\<rparr>] = Inr 5"
    by (simp add: new_rowid_def MAX_ROWID_def)
  from create_address_Inr[OF this] show ?thesis by simp
qed

section \<open>The claims\<close>

subsection \<open>C1: the result is the records within the radius\<close>

text \<open>
  C1 as stated fails: it speaks of the result for every list of stored records, and
  there are lists for which the query has none. With the records \<open>(0, 0)\<close> and
  \<open>(100, 0)\<close>, the reference point \<open>(0, 0)\<close> and radius 10, the distance of the first
  record is computed, but \<^verbatim>\<open>Point\<close> refuses the latitude 100 of the second and the query
  raises \<^verbatim>\<open>ValueError\<close>, for every inverse geodesic computation: the first record is
  not returned, whatever its distance.
\<close>

theorem within_distance_iff_counterexample:
  "\<forall>geod_inverse.
     geopy_geodesic geod_inverse (0, 0) (Some 0, Some 0) = Inr (geod_inverse (0, 0) (0, 0)) \<and>
     get_addresses_within_distance (geopy_geodesic geod_inverse) 0 0 10
       [\<lparr>ident = 1, name = Some ''a'', latitude = Some 0, longitude = Some 0\<rparr>,
        \<lparr>ident = 2, name = Some ''b'', latitude = Some 100, longitude = Some 0\<rparr>] = Inl ValueError"
  by (simp add: get_addresses_within_distance_def geopy_geodesic_def point_Some)

text \<open>
  C1, amended. The proximity query returns if and only if the distance function returns
  a distance for every stored record. Whenever it returns, a record is in its result if
  and only if it is a stored record whose distance from the reference point is at most
  \<open>max_km\<close>; a stored record at distance exactly \<open>max_km\<close> is in the result. Whenever
  it raises, it raises what the distance function raised for a stored record.
\<close>

theorem within_distance_iff:
  "((\<exists>res. get_addresses_within_distance geodesic lat lon max_km rows = Inr res) \<longleftrightarrow>
    (\<forall>a\<in>set rows. \<exists>km. geodesic (lat, lon) (latitude a, longitude a) = Inr km)) \<and>
   (\<forall>res. get_addresses_within_distance geodesic lat lon max_km rows = Inr res \<longrightarrow>
      (\<forall>a. a \<in> set res \<longleftrightarrow>
         a \<in> set rows \<and>
         (\<exists>km. geodesic (lat, lon) (latitude a, longitude a) = Inr km \<and> km \<le> max_km)) \<and>
      (\<forall>a\<in>set rows. geodesic (lat, lon) (latitude a, longitude a) = Inr max_km \<longrightarrow>
         a \<in> set res)) \<and>
   (\<forall>e. get_addresses_within_distance geodesic lat lon max_km rows = Inl e \<longrightarrow>
      (\<exists>a\<in>set rows. geodesic (lat, lon) (latitude a, longitude a) = Inl e))"
proof -
  have r: "(\<exists>res. get_addresses_within_distance geodesic lat lon max_km rows = Inr res) \<longleftrightarrow>
    (\<forall>a\<in>set rows. \<exists>km. geodesic (lat, lon) (latitude a, longitude a) = Inr km)"
    by (rule query_returns_iff)
  have m: "(\<forall>a. a \<in> set res \<longleftrightarrow>
         a \<in> set rows \<and>
         (\<exists>km. geodesic (lat, lon) (latitude a, longitude a) = Inr km \<and> km \<le> max_km)) \<and>
      (\<forall>a\<in>set rows. geodesic (lat, lon) (latitude a, longitude a) = Inr max_km \<longrightarrow>
         a \<in> set res)"
    if q: "get_addresses_within_distance geodesic lat lon max_km rows = Inr res" for res
  proof -
    from q have w: "within_loop geodesic (lat, lon) max_km rows [] = Inr res"
      by (simp add: get_addresses_within_distance_def)
    from within_loop_Inr[OF w]
    have res: "res = filter (\<lambda>a. \<exists>km. geodesic (lat, lon) (latitude a, longitude a) = Inr km \<and>
        km \<le> max_km) rows"
      by simp
    show ?thesis by (subst res, subst res) auto
  qed
  have l: "\<exists>a\<in>set rows. geodesic (lat, lon) (latitude a, longitude a) = Inl e"
    if q: "get_addresses_within_distance geodesic lat lon max_km rows = Inl e" for e
  proof -
    from q have "within_loop geodesic (lat, lon) max_km rows [] = Inl e"
      by (simp add: get_addresses_within_distance_def)
    then show ?thesis by (rule within_loop_Inl_D)
  qed
  from r m l show ?thesis by blast
qed

text \<open>
  The three example rows with radius 5: the distance function returns for each, the
  query returns, and its result holds the rows at 1 and at 5 and not the row at 10.
\<close>

theorem within_distance_iff_witness:
  "example_geodesic (0, 0) (Some 1, Some 0) = Inr 1 \<and>
   example_geodesic (0, 0) (Some 5, Some 0) = Inr 5 \<and>
   example_geodesic (0, 0) (Some 10, Some 0) = Inr 10 \<and>
   (\<exists>res. get_addresses_within_distance example_geodesic 0 0 5 example_rows = Inr res \<and>
      \<lparr>ident = 1, name = Some ''one'', latitude = Some 1, longitude = Some 0\<rparr> \<in> set res \<and>
      \<lparr>ident = 2, name = Some ''five'', latitude = Some 5, longitude = Some 0\<rparr> \<in> set res \<and>
      \<lparr>ident = 3, name = Some ''ten'', latitude = Some 10, longitude = Some 0\<rparr> \<notin> set res)"
proof -
  note t = within_distance_iff[where geodesic = example_geodesic and lat = 0 and lon = 0
      and rows = example_rows and max_km = 5]
  have g: "example_geodesic (0, 0) (Some 1, Some 0) = Inr 1"
    "example_geodesic (0, 0) (Some 5, Some 0) = Inr 5"
    "example_geodesic (0, 0) (Some 10, Some 0) = Inr 10"
    by (simp_all add: example_geodesic_def)
  have h: "\<forall>a\<in>set example_rows. \<exists>km. example_geodesic (0, 0) (latitude a, longitude a) = Inr km"
    by (simp add: example_rows_def example_geodesic_def)
  with t obtain res where
    res: "get_addresses_within_distance example_geodesic 0 0 5 example_rows = Inr res"
    by blast
  with t have m: "\<forall>a. a \<in> set res \<longleftrightarrow>
         a \<in> set example_rows \<and>
         (\<exists>km. example_geodesic (0, 0) (latitude a, longitude a) = Inr km \<and> km \<le> 5)"
    by blast
  have "\<lparr>ident = 1, name = Some ''one'', latitude = Some 1, longitude = Some 0\<rparr> \<in> set res"
    "\<lparr>ident = 2, name = Some ''five'', latitude = Some 5, longitude = Some 0\<rparr> \<in> set res"
    "\<lparr>ident = 3, name = Some ''ten'', latitude = Some 10, longitude = Some 0\<rparr> \<notin> set res"
    by (simp_all add: m example_rows_def example_geodesic_def)
  with res g show ?thesis by blast
qed

subsection \<open>C2: the result is a subsequence of the input\<close>

text \<open>
  C2 as stated fails: it speaks of the output for every input list, and there are lists
  for which the query has none. With the records \<open>(100, 0)\<close> and \<open>(0, 0)\<close>, the
  reference point \<open>(0, 0)\<close> and radius 5, the query raises \<^verbatim>\<open>ValueError\<close> at the first
  record, for every inverse geodesic computation, and the second record, whose
  distance the library computes, is not output.
\<close>

theorem within_distance_subseq_counterexample:
  "\<forall>geod_inverse.
     geopy_geodesic geod_inverse (0, 0) (Some 0, Some 0) = Inr (geod_inverse (0, 0) (0, 0)) \<and>
     get_addresses_within_distance (geopy_geodesic geod_inverse) 0 0 5
       [\<lparr>ident = 1, name = Some ''far'', latitude = Some 100, longitude = Some 0\<rparr>,
        \<lparr>ident = 2, name = Some ''near'', latitude = Some 0, longitude = Some 0\<rparr>] = Inl ValueError"
  by (simp add: get_addresses_within_distance_def geopy_geodesic_def point_Some)

text \<open>
  C2, amended. If the distance function returns a distance \<open>d a\<close> for every stored
  record \<open>a\<close>, the output of the proximity query is the input list filtered by
  \<open>d a \<le> max_km\<close>: a subsequence of the input, in the input's order, with nothing added
  or repeated. If the distance function raises for some stored record, the query raises
  and has no output.
\<close>

theorem within_distance_subseq:
  "((\<forall>a\<in>set rows. geodesic (lat, lon) (latitude a, longitude a) = Inr (d a)) \<longrightarrow>
      get_addresses_within_distance geodesic lat lon max_km rows =
        Inr (filter (\<lambda>a. d a \<le> max_km) rows) \<and>
      subseq (filter (\<lambda>a. d a \<le> max_km) rows) rows) \<and>
   ((\<exists>a\<in>set rows. \<exists>e. geodesic (lat, lon) (latitude a, longitude a) = Inl e) \<longrightarrow>
      (\<exists>e. get_addresses_within_distance geodesic lat lon max_km rows = Inl e))"
proof (intro conjI impI)
  assume h: "\<forall>a\<in>set rows. geodesic (lat, lon) (latitude a, longitude a) = Inr (d a)"
  show "get_addresses_within_distance geodesic lat lon max_km rows =
        Inr (filter (\<lambda>a. d a \<le> max_km) rows)"
    using h within_loop_ok[where geodesic = geodesic and d = d and loc = "(lat, lon)"
      and rows = rows and distance = max_km and acc = "[]"]
    by (simp add: get_addresses_within_distance_def)
  show "subseq (filter (\<lambda>a. d a \<le> max_km) rows) rows" by simp
next
  assume "\<exists>a\<in>set rows. \<exists>e. geodesic (lat, lon) (latitude a, longitude a) = Inl e"
  then have "\<exists>e. within_loop geodesic (lat, lon) max_km rows [] = Inl e"
    by (rule within_loop_Inl_I[where geodesic = geodesic and loc = "(lat, lon)"])
  then show "\<exists>e. get_addresses_within_distance geodesic lat lon max_km rows = Inl e"
    by (simp add: get_addresses_within_distance_def)
qed

text \<open>
  Distances 1, 5 and 10 with radius 5: exactly the first two rows, in their order. And
  a table with a latitude of 100: the query raises.
\<close>

theorem within_distance_subseq_witness:
  "example_geodesic (0, 0) (Some 1, Some 0) = Inr 1 \<and>
   example_geodesic (0, 0) (Some 5, Some 0) = Inr 5 \<and>
   example_geodesic (0, 0) (Some 10, Some 0) = Inr 10 \<and>
   get_addresses_within_distance example_geodesic 0 0 5 example_rows =
     Inr [\<lparr>ident = 1, name = Some ''one'', latitude = Some 1, longitude = Some 0\<rparr>,
          \<lparr>ident = 2, name = Some ''five'', latitude = Some 5, longitude = Some 0\<rparr>] \<and>
   subseq [\<lparr>ident = 1, name = Some ''one'', latitude = Some 1, longitude = Some 0\<rparr>,
          \<lparr>ident = 2, name = Some ''five'', latitude = Some 5, longitude = Some 0\<rparr>] example_rows \<and>
   geopy_geodesic example_inverse (0, 0) (Some 100, Some 0) = Inl ValueError \<and>
   (\<exists>e. get_addresses_within_distance (geopy_geodesic example_inverse) 0 0 5
      [\<lparr>ident = 1, name = Some ''a'', latitude = Some 100, longitude = Some 0\<rparr>] = Inl e)"
proof -
  have h: "\<forall>a\<in>set example_rows.
     example_geodesic (0, 0) (latitude a, longitude a) = Inr (the (latitude a))"
    by (simp add: example_rows_def example_geodesic_def)
  note t1 = within_distance_subseq[where geodesic = example_geodesic and lat = 0 and lon = 0
      and rows = example_rows and d = "\<lambda>a. the (latitude a)" and max_km = 5]
  from t1 h have c: "get_addresses_within_distance example_geodesic 0 0 5 example_rows =
        Inr (filter (\<lambda>a. the (latitude a) \<le> 5) example_rows) \<and>
      subseq (filter (\<lambda>a. the (latitude a) \<le> 5) example_rows) example_rows"
    by blast
  have f: "filter (\<lambda>a. the (latitude a) \<le> 5) example_rows =
     [\<lparr>ident = 1, name = Some ''one'', latitude = Some 1, longitude = Some 0\<rparr>,
      \<lparr>ident = 2, name = Some ''five'', latitude = Some 5, longitude = Some 0\<rparr>]"
    by (simp add: example_rows_def)
  have g: "example_geodesic (0, 0) (Some 1, Some 0) = Inr 1"
    "example_geodesic (0, 0) (Some 5, Some 0) = Inr 5"
    "example_geodesic (0, 0) (Some 10, Some 0) = Inr 10"
    by (simp_all add: example_geodesic_def)
  have v: "geopy_geodesic example_inverse (0, 0) (Some 100, Some 0) = Inl ValueError"
    by (simp add: geopy_geodesic_def point_Some)
  have h2: "\<exists>a\<in>set [\<lparr>ident = 1, name = Some ''a'', latitude = Some 100, longitude = Some 0\<rparr>].
      \<exists>e. geopy_geodesic example_inverse (0, 0) (latitude a, longitude a) = Inl e"
    by (simp add: v)
  note t2 = within_distance_subseq[where geodesic = "geopy_geodesic example_inverse"
      and lat = 0 and lon = 0 and max_km = 5 and d = "\<lambda>a. 0"
      and rows = "[\<lparr>ident = 1, name = Some ''a'', latitude = Some 100, longitude = Some 0\<rparr>]"]
  from t2 h2 have e: "\<exists>e. get_addresses_within_distance (geopy_geodesic example_inverse) 0 0 5
      [\<lparr>ident = 1, name = Some ''a'', latitude = Some 100, longitude = Some 0\<rparr>] = Inl e"
    by blast
  from c f g v e show ?thesis by simp
qed

subsection \<open>C3: which requests can fail\<close>




subsection \<open>C4: update\<close>




subsection \<open>C5: delete\<close>

text \<open>
  C5 as stated fails: no record of the example table has the id \<open>2^63\<close>, and delete
  with that id raises \<^verbatim>\<open>OverflowError\<close>, not \<open>NotFound\<close>.
\<close>

theorem delete_address_spec_counterexample:
  "9223372036854775808 \<notin> ident ` set example_rows \<and>
   fst (delete_address 9223372036854775808 example_rows) = Inl OverflowError"
  by (simp add: example_rows_def delete_address_def query_first_def int64_def)

text \<open>
  C5, amended. For an id within the signed 64-bit range: delete raises \<open>NotFound\<close> if
  and only if no stored record has the id, and then leaves the table as it is; when a
  record has the id, delete returns that record as it was stored, and afterwards no
  row has the id: the list of rows, a second delete, an update and the result of any
  proximity query do not see it, and the second delete raises \<open>NotFound\<close>. For an id
  outside the signed 64-bit range delete raises \<^verbatim>\<open>OverflowError\<close> and leaves the table
  as it is.
\<close>

theorem delete_address_spec:
  "(int64 i \<longrightarrow>
      (fst (delete_address i rows) = Inl NotFound \<longleftrightarrow> i \<notin> ident ` set rows) \<and>
      (i \<notin> ident ` set rows \<longrightarrow> delete_address i rows = (Inl NotFound, rows)) \<and>
      (i \<in> ident ` set rows \<longrightarrow>
         (\<exists>a rows'. delete_address i rows = (Inr a, rows') \<and>
            lookup rows i = Some a \<and> a \<in> set rows \<and> ident a = i \<and>
            i \<notin> ident ` set rows' \<and>
            delete_address i rows' = (Inl NotFound, rows') \<and>
            update_address i u rows' = (Inl NotFound, rows') \<and>
            (\<forall>geodesic lat lon distance res.
               get_addresses_within_distance geodesic lat lon distance rows' = Inr res \<longrightarrow>
               i \<notin> ident ` set res)))) \<and>
   (\<not> int64 i \<longrightarrow> delete_address i rows = (Inl OverflowError, rows))"
proof (cases "int64 i")
  case False
  then show ?thesis by (simp add: delete_address_overflow)
next
  case True
  show ?thesis
  proof (cases rule: lookup_cases[of i rows])
    case 1
    with True show ?thesis by (simp add: delete_address_NotFound)
  next
    case (2 a)
    define rows' where "rows' = filter (\<lambda>b. ident b \<noteq> i) rows"
    have eq: "delete_address i rows = (Inr a, rows')"
      unfolding rows'_def by (rule delete_address_found[OF True 2(2)])
    have gone: "i \<notin> ident ` set rows'" by (auto simp: rows'_def)
    then have none: "lookup rows' i = None" by (simp add: lookup_None)
    have q: "\<forall>geodesic lat lon distance res.
              get_addresses_within_distance geodesic lat lon distance rows' = Inr res \<longrightarrow>
              i \<notin> ident ` set res"
      using gone within_distance_subset by blast
    have "\<exists>b rows''. delete_address i rows = (Inr b, rows'') \<and>
           lookup rows i = Some b \<and> b \<in> set rows \<and> ident b = i \<and>
           i \<notin> ident ` set rows'' \<and>
           delete_address i rows'' = (Inl NotFound, rows'') \<and>
           update_address i u rows'' = (Inl NotFound, rows'') \<and>
           (\<forall>geodesic lat lon distance res.
              get_addresses_within_distance geodesic lat lon distance rows'' = Inr res \<longrightarrow>
              i \<notin> ident ` set res)"
      using eq 2(2,3,4) gone q delete_address_NotFound[OF True none]
        update_address_NotFound[OF True none]
      by blast
    moreover have "fst (delete_address i rows) \<noteq> Inl NotFound" by (simp add: eq)
    ultimately show ?thesis using 2(1) True by blast
  qed
qed

text \<open>
  Deleting id 2 of the example rows, twice; id 4 is not there; \<open>2^63\<close> does not fit.
\<close>

theorem delete_address_spec_witness:
  "int64 2 \<and> 2 \<in> ident ` set example_rows \<and>
   delete_address 2 example_rows =
     (Inr \<lparr>ident = 2, name = Some ''five'', latitude = Some 5, longitude = Some 0\<rparr>,
      [\<lparr>ident = 1, name = Some ''one'', latitude = Some 1, longitude = Some 0\<rparr>,
       \<lparr>ident = 3, name = Some ''ten'', latitude = Some 10, longitude = Some 0\<rparr>]) \<and>
   fst (delete_address 2 (snd (delete_address 2 example_rows))) = Inl NotFound \<and>
   int64 4 \<and> 4 \<notin> ident ` set example_rows \<and>
   delete_address 4 example_rows = (Inl NotFound, example_rows) \<and>
   \<not> int64 9223372036854775808 \<and>
   delete_address 9223372036854775808 example_rows = (Inl OverflowError, example_rows)"
proof -
  have m: "2 \<in> ident ` set example_rows" "4 \<notin> ident ` set example_rows"
    by (simp_all add: example_rows_def)
  from delete_address_spec[of 2 example_rows "AddressUpdate ''x'' 0 0"] m(1) int64_example(1)
  obtain a rows' where
    d: "delete_address 2 example_rows = (Inr a, rows')"
    and q: "lookup example_rows 2 = Some a"
    and n: "delete_address 2 rows' = (Inl NotFound, rows')"
    by blast
  have a: "a = \<lparr>ident = 2, name = Some ''five'', latitude = Some 5, longitude = Some 0\<rparr>"
    using q by (simp add: lookup_def example_rows_def)
  have r: "snd (delete_address 2 example_rows) =
      [\<lparr>ident = 1, name = Some ''one'', latitude = Some 1, longitude = Some 0\<rparr>,
       \<lparr>ident = 3, name = Some ''ten'', latitude = Some 10, longitude = Some 0\<rparr>]"
    by (simp add: delete_address_def query_first_def int64_def lookup_def example_rows_def
        delete_row_def)
  from delete_address_spec[of 4 example_rows "AddressUpdate ''x'' 0 0"] m(2) int64_example(3)
  have nf: "delete_address 4 example_rows = (Inl NotFound, example_rows)"
    by blast
  from delete_address_spec[of 9223372036854775808 example_rows "AddressUpdate ''x'' 0 0"]
    int64_example(4)
  have ov: "delete_address 9223372036854775808 example_rows = (Inl OverflowError, example_rows)"
    by blast
  from d n a r m nf ov int64_example show ?thesis by simp
qed

subsection \<open>C6: radius 0\<close>

text \<open>
  C6 as stated fails. With the records \<open>(0, 0)\<close> and \<open>(0, 360)\<close>, the reference point
  \<open>(0, 0)\<close> and radius 0, \<^verbatim>\<open>Point\<close> turns the longitude 360 into 0, so both records are at
  the same distance from the reference point: the result holds both or neither, never
  exactly the one record whose coordinate pair equals the reference pair. This holds for
  every inverse geodesic computation.
\<close>

theorem radius_zero_counterexample:
  "\<not> (\<exists>geod_inverse res.
        get_addresses_within_distance (geopy_geodesic geod_inverse) 0 0 0
          [\<lparr>ident = 1, name = Some ''a'', latitude = Some 0, longitude = Some 0\<rparr>,
           \<lparr>ident = 2, name = Some ''b'', latitude = Some 0, longitude = Some 360\<rparr>] = Inr res \<and>
        (\<forall>a. a \<in> set res \<longleftrightarrow>
           a \<in> set [\<lparr>ident = 1, name = Some ''a'', latitude = Some 0, longitude = Some 0\<rparr>,
                    \<lparr>ident = 2, name = Some ''b'', latitude = Some 0, longitude = Some 360\<rparr>] \<and>
           (latitude a, longitude a) = (Some 0, Some 0)))"
proof
  let ?r1 = "\<lparr>ident = 1, name = Some ''a'', latitude = Some 0, longitude = Some (0::real)\<rparr>"
  let ?r2 = "\<lparr>ident = 2, name = Some ''b'', latitude = Some 0, longitude = Some (360::real)\<rparr>"
  assume "\<exists>geod_inverse res.
        get_addresses_within_distance (geopy_geodesic geod_inverse) 0 0 0 [?r1, ?r2] = Inr res \<and>
        (\<forall>a. a \<in> set res \<longleftrightarrow>
           a \<in> set [?r1, ?r2] \<and> (latitude a, longitude a) = (Some 0, Some 0))"
  then obtain geod_inverse res where
    q: "get_addresses_within_distance (geopy_geodesic geod_inverse) 0 0 0 [?r1, ?r2] = Inr res"
    and c: "\<forall>a. a \<in> set res \<longleftrightarrow>
           a \<in> set [?r1, ?r2] \<and> (latitude a, longitude a) = (Some 0, Some 0)"
    by blast
  from q have res: "res = (if geod_inverse (0, 0) (0, 0) \<le> 0 then [?r1, ?r2] else [])"
    by (simp add: query_360)
  from c have c1: "?r1 \<in> set res" by simp
  from c have c2: "?r2 \<notin> set res" by simp
  show False
  proof (cases "geod_inverse (0, 0) (0, 0) \<le> 0")
    case True
    with res c2 show False by simp
  next
    case False
    with res c1 show False by simp
  qed
qed

text \<open>
  C6, amended. If the distance function returns a distance \<open>d a\<close> for every stored
  record \<open>a\<close>, and returns 0 for the reference pair itself, then the proximity query
  with radius 0 returns exactly the stored records with \<open>d a \<le> 0\<close>, in their order,
  and every stored record whose coordinate pair equals the reference pair is among them.
\<close>

theorem within_distance_zero:
  assumes "\<forall>a\<in>set rows. geodesic (lat, lon) (latitude a, longitude a) = Inr (d a)"
    and "geodesic (lat, lon) (Some lat, Some lon) = Inr 0"
  shows "\<exists>res. get_addresses_within_distance geodesic lat lon 0 rows = Inr res \<and>
           res = filter (\<lambda>a. d a \<le> 0) rows \<and>
           (\<forall>a\<in>set rows. (latitude a, longitude a) = (Some lat, Some lon) \<longrightarrow> a \<in> set res)"
proof -
  have "get_addresses_within_distance geodesic lat lon 0 rows = Inr (filter (\<lambda>a. d a \<le> 0) rows)"
    using assms(1) within_loop_ok[where geodesic = geodesic and d = d and loc = "(lat, lon)"
      and rows = rows and distance = 0 and acc = "[]"]
    by (simp add: get_addresses_within_distance_def)
  moreover have "\<forall>a\<in>set rows. (latitude a, longitude a) = (Some lat, Some lon) \<longrightarrow>
      a \<in> set (filter (\<lambda>a. d a \<le> 0) rows)"
    using assms by auto
  ultimately show ?thesis by blast
qed

text \<open>The example rows seen from \<open>(1, 0)\<close>: only the first one is at distance 0.\<close>

theorem within_distance_zero_witness:
  "example_geodesic (1, 0) (Some 1, Some 0) = Inr 0 \<and>
   example_geodesic (1, 0) (Some 5, Some 0) = Inr 4 \<and>
   example_geodesic (1, 0) (Some 10, Some 0) = Inr 9 \<and>
   get_addresses_within_distance example_geodesic 1 0 0 example_rows =
     Inr [\<lparr>ident = 1, name = Some ''one'', latitude = Some 1, longitude = Some 0\<rparr>]"
proof -
  have h: "\<forall>a\<in>set example_rows.
     example_geodesic (1, 0) (latitude a, longitude a) = Inr (the (latitude a) - 1)"
    by (simp add: example_rows_def example_geodesic_def)
  have g: "example_geodesic (1, 0) (Some 1, Some 0) = Inr 0"
    "example_geodesic (1, 0) (Some 5, Some 0) = Inr 4"
    "example_geodesic (1, 0) (Some 10, Some 0) = Inr 9"
    by (simp_all add: example_geodesic_def)
  have c: "\<exists>res. get_addresses_within_distance example_geodesic 1 0 0 example_rows = Inr res \<and>
      res = filter (\<lambda>a. the (latitude a) - 1 \<le> 0) example_rows \<and>
      (\<forall>a\<in>set example_rows. (latitude a, longitude a) = (Some 1, Some 0) \<longrightarrow> a \<in> set res)"
    by (rule within_distance_zero[where geodesic = example_geodesic and lat = 1 and lon = 0
      and rows = example_rows and d = "\<lambda>a. the (latitude a) - 1"]) (rule h, rule g(1))
  have f: "filter (\<lambda>a. the (latitude a) - 1 \<le> 0) example_rows =
     [\<lparr>ident = 1, name = Some ''one'', latitude = Some 1, longitude = Some 0\<rparr>]"
    by (simp add: example_rows_def)
  from c f g show ?thesis by auto
qed

subsection \<open>C7: create\<close>




subsection \<open>C8: ids\<close>




subsection \<open>C9: the other records\<close>

text \<open>
  C9. Update and delete of an id leave the rows with any other id as they are, in
  their order; update leaves the ids of the table as they are, and when it returns a
  record (rather than raising \<open>NotFound\<close> or \<^verbatim>\<open>OverflowError\<close>), that record has the id
  it was asked for.
\<close>

theorem update_delete_frame:
  "filter (\<lambda>b. ident b \<noteq> i) (snd (update_address i u rows)) = filter (\<lambda>b. ident b \<noteq> i) rows \<and>
   filter (\<lambda>b. ident b \<noteq> i) (snd (delete_address i rows)) = filter (\<lambda>b. ident b \<noteq> i) rows \<and>
   map ident (snd (update_address i u rows)) = map ident rows \<and>
   (fst (update_address i u rows) = Inl NotFound \<or>
    fst (update_address i u rows) = Inl OverflowError \<or>
    (\<exists>a. fst (update_address i u rows) = Inr a \<and> ident a = i))"
proof (cases "int64 i")
  case False
  then show ?thesis by (simp add: update_address_overflow delete_address_overflow)
next
  case True
  show ?thesis
  proof (cases rule: lookup_cases[of i rows])
    case 1
    with True show ?thesis by (simp add: update_address_NotFound delete_address_NotFound)
  next
    case (2 a)
    have "ident (assign_fields (update_model_dump u) a) = i"
      using 2(4) by (simp add: ident_assign_fields)
    then show ?thesis using 2(2) True
      by (simp add: update_address_found delete_address_found others_update_row
          map_ident_update_row)
  qed
qed

subsection \<open>C10: the guard of update\<close>

text \<open>
  C10. The update as written, with its guard \<^verbatim>\<open>if value is not None\<close>, and the update
  that assigns every field with no guard give the same result and the same table, for
  every id, payload and table: the dictionary of a payload holds no \<^verbatim>\<open>None\<close>.
\<close>

theorem update_guard_redundant:
  "update_address i u rows = update_address_unconditional i u rows \<and>
   PyNone \<notin> snd ` set (update_model_dump u)"
proof
  show "update_address i u rows = update_address_unconditional i u rows"
    by (simp add: update_address_def update_address_unconditional_def assign_fields_dump_eq
        split: sum.splits option.splits)
  show "PyNone \<notin> snd ` set (update_model_dump u)"
    by (cases u) simp
qed

end
